theory Spec2Isabelle
  imports Main
begin

section \<open>Data read from the provider, and exceptions\<close>

text \<open>
  The two scripts, \<^verbatim>\<open>basic_connection.py\<close> and \<^verbatim>\<open>check_models.py\<close>, read three
  attributes of every model object that \<^verbatim>\<open>genai.list_models()\<close> yields, and two attributes
  of a response and of its candidates. Each object is a record of exactly the attributes
  the scripts read.
\<close>

record model_descriptor =
  name :: string
  display_name :: string
  supported_generation_methods :: "string list"

type_synonym safety_rating = "string \<times> string"

record candidate =
  finish_reason :: string
  safety_ratings :: "safety_rating list"

text \<open>
  \<open>ProviderError msg\<close> is any \<^verbatim>\<open>Exception\<close> raised by a call into the client library
  (the scripts catch them all alike, as \<^verbatim>\<open>except Exception as e\<close>, and print \<^verbatim>\<open>{e}\<close>);
  \<open>ValueError msg\<close> is the exception that reading the property \<^verbatim>\<open>response.text\<close> of the
  client library raises; \<open>IndexError\<close> is raised by Python itself when a list is indexed
  out of range.
\<close>

datatype exn = ProviderError string | ValueError string | IndexError

text \<open>
  \<^verbatim>\<open>response.text\<close> and \<^verbatim>\<open>response.candidates\<close>. \<^verbatim>\<open>candidates\<close> is a stored sequence.
  \<^verbatim>\<open>text\<close> is a property that the client library computes when it is read, and reading
  it can raise: the library does so when the response has no candidate, when it has
  several, and when its candidate has no text part. The library is not part of the
  scripts, so the field \<open>response_text\<close> is what reading \<^verbatim>\<open>response.text\<close> does for this
  response: \<open>Inl\<close> the exception it raises, or \<open>Inr\<close> the string it gives.
\<close>

record response =
  response_text :: "exn + string"
  candidates :: "candidate list"

text \<open>The object built by \<^verbatim>\<open>genai.GenerativeModel(model_name)\<close>; it holds the model name.\<close>

datatype generative_model = GenerativeModel string

fun model_name_of :: "generative_model \<Rightarrow> string" where
  "model_name_of (GenerativeModel n) = n"

section \<open>The environment and the provider\<close>

text \<open>
  Everything a run depends on: the value of \<^verbatim>\<open>os.getenv('GOOGLE_API_KEY')\<close> (\<open>None\<close> when
  the variable is not set), what \<^verbatim>\<open>list(genai.list_models())\<close> does (raise, or give the
  list of descriptors), and what \<^verbatim>\<open>model.generate_content(question)\<close> does.
  \<^verbatim>\<open>genai.configure\<close> and the constructor \<^verbatim>\<open>genai.GenerativeModel\<close> only store their
  argument; they are the two calls of the library that are modelled as never raising.
\<close>

record world =
  getenv_GOOGLE_API_KEY :: "string option"
  list_models :: "exn + model_descriptor list"
  generate_content :: "generative_model \<Rightarrow> string \<Rightarrow> exn + response"

section \<open>Console output and effects\<close>

text \<open>
  One constructor for each \<^verbatim>\<open>print\<close> statement of \<^verbatim>\<open>basic_connection.py\<close>, carrying the
  values the f-string interpolates. \<open>Dashes n\<close> is \<^verbatim>\<open>"-" * n\<close> and \<open>Equals n\<close> is \<^verbatim>\<open>"=" * n\<close>.
\<close>

datatype console_line =
    Checking_available_models       \<comment> \<open>line 27\<close>
  | Available_models_heading        \<comment> \<open>line 30\<close>
  | Dashes nat                      \<comment> \<open>lines 31, 42\<close>
  | Model_name string               \<comment> \<open>line 38\<close>
  | Model_display_name string       \<comment> \<open>line 39\<close>
  | Model_status bool               \<comment> \<open>line 40: the status text chosen by \<open>supports_generate\<close>\<close>
  | Model_methods string            \<comment> \<open>line 41\<close>
  | Error_listing_models exn        \<comment> \<open>line 47\<close>
  | Key_not_found                   \<comment> \<open>line 65\<close>
  | Key_get_from                    \<comment> \<open>line 66\<close>
  | Key_then_run                    \<comment> \<open>line 67\<close>
  | No_models_support               \<comment> \<open>line 85\<close>
  | Using_model string              \<comment> \<open>line 100\<close>
  | Configured_successfully         \<comment> \<open>line 105\<close>
  | Using_model_again string        \<comment> \<open>line 106\<close>
  | Sending_question string         \<comment> \<open>line 125\<close>
  | Equals nat                      \<comment> \<open>lines 145, 147, 149, 165, 167\<close>
  | Response_heading                \<comment> \<open>line 146\<close>
  | Response_text string            \<comment> \<open>line 148\<close>
  | Response_metadata_heading       \<comment> \<open>line 152\<close>
  | Number_of_candidates nat        \<comment> \<open>line 153\<close>
  | Finish_reason string            \<comment> \<open>line 154\<close>
  | Safety_ratings nat              \<comment> \<open>line 155\<close>
  | Component_title                 \<comment> \<open>line 166\<close>
  | Component_complete              \<comment> \<open>line 181\<close>
  | What_you_learned                \<comment> \<open>line 182\<close>
  | Learned_configure               \<comment> \<open>line 183\<close>
  | Learned_call                    \<comment> \<open>line 184\<close>
  | Learned_parse                   \<comment> \<open>line 185\<close>
  | Next_component                  \<comment> \<open>line 186\<close>

text \<open>The \<^verbatim>\<open>print\<close> statements of \<^verbatim>\<open>check_models.py\<close>.\<close>

datatype check_line =
    CM_key_not_found                \<comment> \<open>line 15\<close>
  | CM_set_it_with                  \<comment> \<open>line 16\<close>
  | CM_fetching                     \<comment> \<open>line 23\<close>
  | CM_available_heading            \<comment> \<open>line 26\<close>
  | CM_equals nat                   \<comment> \<open>line 27\<close>
  | CM_model_name string            \<comment> \<open>line 34\<close>
  | CM_display_name string          \<comment> \<open>line 35\<close>
  | CM_supports bool                \<comment> \<open>line 36\<close>
  | CM_all_methods string           \<comment> \<open>line 37\<close>
  | CM_dashes nat                   \<comment> \<open>line 42\<close>
  | CM_usable_heading               \<comment> \<open>line 44\<close>
  | CM_usable string                \<comment> \<open>line 47\<close>
  | CM_none_usable                  \<comment> \<open>line 49\<close>
  | CM_total nat                    \<comment> \<open>line 51\<close>
  | CM_total_generate nat           \<comment> \<open>line 52\<close>
  | CM_error exn                    \<comment> \<open>line 55\<close>
  | CM_possible_issues              \<comment> \<open>line 56\<close>
  | CM_issue_key                    \<comment> \<open>line 57\<close>
  | CM_issue_network                \<comment> \<open>line 58\<close>
  | CM_issue_quota                  \<comment> \<open>line 59\<close>

text \<open>
  What a run does to the outside, in order: it prints a line, stores the key in the
  library (\<^verbatim>\<open>genai.configure\<close>), and makes one of the two network calls. Every function
  below returns the list of its effects together with its value.
\<close>

datatype 'l event =
    Print 'l
  | Configure string
  | Call_list_models
  | Call_generate_content string string

fun is_network_call :: "'l event \<Rightarrow> bool" where
  "is_network_call Call_list_models = True"
| "is_network_call (Call_generate_content n q) = True"
| "is_network_call (Print l) = False"
| "is_network_call (Configure k) = False"

section \<open>Python helpers\<close>

text \<open>\<^verbatim>\<open>if not api_key\<close>: \<open>None\<close> and the empty string are both false.\<close>

fun truthy :: "string option \<Rightarrow> bool" where
  "truthy None = False"
| "truthy (Some s) = (s \<noteq> [])"

text \<open>\<^verbatim>\<open>sep.join(xs)\<close>\<close>

fun join :: "string \<Rightarrow> string list \<Rightarrow> string" where
  "join sep [] = []"
| "join sep [x] = x"
| "join sep (x # y # ys) = x @ sep @ join sep (y # ys)"

text \<open>\<^verbatim>\<open>'generateContent' in model.supported_generation_methods\<close> (lines 35 and 81).\<close>

definition supports_generate :: "model_descriptor \<Rightarrow> bool" where
  "supports_generate model =
     (''generateContent'' \<in> set (supported_generation_methods model))"

section \<open>basic\_connection.py\<close>

subsection \<open>list\_available\_models\<close>

text \<open>The body of the loop of lines 33 to 42: five lines for each model.\<close>

definition describe_model :: "model_descriptor \<Rightarrow> console_line event list" where
  "describe_model model =
     [Print (Model_name (name model)),
      Print (Model_display_name (display_name model)),
      Print (Model_status (supports_generate model)),
      Print (Model_methods (join '', '' (supported_generation_methods model))),
      Print (Dashes 50)]"

text \<open>
  Lines 26 to 48. The listing call is inside \<^verbatim>\<open>try\<close>; when it raises, the handler prints
  the error and the function returns \<^verbatim>\<open>None\<close>; otherwise it returns the list itself.
\<close>

definition list_available_models ::
    "world \<Rightarrow> console_line event list \<times> model_descriptor list option" where
  "list_available_models w =
     (case list_models w of
        Inl e \<Rightarrow>
          ([Print Checking_available_models, Call_list_models,
            Print (Error_listing_models e)], None)
      | Inr models \<Rightarrow>
          ([Print Checking_available_models, Call_list_models,
            Print Available_models_heading, Print (Dashes 50)]
           @ concat (map describe_model models), Some models))"

subsection \<open>setup\_gemini\<close>

text \<open>
  Lines 79 to 82: the loop that appends to \<^verbatim>\<open>working_models\<close> the name of every model
  that supports \<^verbatim>\<open>generateContent\<close>. The second argument is the list built so far.
\<close>

fun working_models_loop :: "model_descriptor list \<Rightarrow> string list \<Rightarrow> string list" where
  "working_models_loop [] working_models = working_models"
| "working_models_loop (model # models) working_models =
     working_models_loop models
       (if supports_generate model then working_models @ [name model]
        else working_models)"

text \<open>Line 89.\<close>

definition preferred_models :: "string list" where
  "preferred_models =
     [''models/gemini-2.5-flash'', ''models/gemini-2.0-flash'',
      ''models/gemini-flash-latest'']"

text \<open>
  Lines 90 to 95: \<^verbatim>\<open>model_name\<close> starts as \<^verbatim>\<open>None\<close>; the loop sets it to the first
  preferred name that is in \<^verbatim>\<open>working_models\<close> and breaks.
\<close>

fun preferred_loop :: "string list \<Rightarrow> string list \<Rightarrow> string option" where
  "preferred_loop [] working_models = None"
| "preferred_loop (preferred # rest) working_models =
     (if preferred \<in> set working_models then Some preferred
      else preferred_loop rest working_models)"

text \<open>
  Lines 97 and 98: \<^verbatim>\<open>if not model_name: model_name = working_models[0]\<close>. The argument
  \<open>first\<close> is \<^verbatim>\<open>working_models[0]\<close>, which exists because line 84 has returned on an empty
  list.
\<close>

definition select_model_name :: "string \<Rightarrow> string list \<Rightarrow> string" where
  "select_model_name first working_models =
     (let model_name = preferred_loop preferred_models working_models
      in if \<not> truthy model_name then first
         else (case model_name of Some n \<Rightarrow> n | None \<Rightarrow> first))"

text \<open>Lines 62 to 108.\<close>

definition setup_gemini ::
    "world \<Rightarrow> console_line event list \<times> generative_model option" where
  "setup_gemini w =
     (let api_key = getenv_GOOGLE_API_KEY w
      in if \<not> truthy api_key then
           ([Print Key_not_found, Print Key_get_from, Print Key_then_run], None)
         else
           (let configured = (case api_key of Some k \<Rightarrow> [Configure k] | None \<Rightarrow> []);
                (listed, models) = list_available_models w
            in case models of
                 None \<Rightarrow> (configured @ listed, None)
               | Some [] \<Rightarrow> (configured @ listed, None)
               | Some (m # ms) \<Rightarrow>
                   (case working_models_loop (m # ms) [] of
                      [] \<Rightarrow> (configured @ listed @ [Print No_models_support], None)
                    | first # others \<Rightarrow>
                        (let model_name = select_model_name first (first # others)
                         in (configured @ listed @
                               [Print (Using_model model_name),
                                Print Configured_successfully,
                                Print (Using_model_again model_name)],
                             Some (GenerativeModel model_name))))))"

subsection \<open>ask\_question, display\_response and main\<close>

text \<open>Lines 125 to 130. An exception of the call is not handled here.\<close>

definition ask_question ::
    "world \<Rightarrow> generative_model \<Rightarrow> string \<Rightarrow> console_line event list \<times> (exn + response)" where
  "ask_question w model question =
     ([Print (Sending_question question),
       Call_generate_content (model_name_of model) question],
      generate_content w model question)"

text \<open>
  Lines 145 to 155. Line 148 reads \<^verbatim>\<open>response.text\<close> after the three heading lines have
  been printed; when the read raises, the exception leaves the function there.
  \<^verbatim>\<open>response.candidates[0]\<close> of line 154 raises \<^verbatim>\<open>IndexError\<close> on an empty list, after
  the lines before it have been printed.
\<close>

definition display_response :: "response \<Rightarrow> console_line event list \<times> (exn + unit)" where
  "display_response response =
     (let heading = [Print (Equals 70), Print Response_heading, Print (Equals 70)]
      in case response_text response of
           Inl e \<Rightarrow> (heading, Inl e)
         | Inr shown_text \<Rightarrow>
             (let printed =
                    heading @
                    [Print (Response_text shown_text), Print (Equals 70),
                     Print Response_metadata_heading,
                     Print (Number_of_candidates (length (candidates response)))]
              in case candidates response of
                   [] \<Rightarrow> (printed, Inl IndexError)
                 | c # cs \<Rightarrow>
                     (printed @
                        [Print (Finish_reason (finish_reason c)),
                         Print (Safety_ratings (length (safety_ratings c)))],
                      Inr ())))"

text \<open>Line 175.\<close>

definition question :: string where
  "question = ''Explain what an AI agent is in 2-3 sentences.''"

text \<open>
  Lines 165 to 186. \<^verbatim>\<open>main\<close> has no \<^verbatim>\<open>try\<close>: an exception of \<^verbatim>\<open>ask_question\<close> or of
  \<^verbatim>\<open>display_response\<close> leaves it, which is the value \<open>Inl\<close>; \<open>Inr ()\<close> is a normal
  return.
\<close>

definition main :: "world \<Rightarrow> console_line event list \<times> (exn + unit)" where
  "main w =
     (let banner = [Print (Equals 70), Print Component_title, Print (Equals 70)];
          (setup, model) = setup_gemini w
      in case model of
           None \<Rightarrow> (banner @ setup, Inr ())
         | Some m \<Rightarrow>
             (let (asked, answer) = ask_question w m question
              in case answer of
                   Inl e \<Rightarrow> (banner @ setup @ asked, Inl e)
                 | Inr response \<Rightarrow>
                     (let (displayed, shown) = display_response response
                      in case shown of
                           Inl e \<Rightarrow> (banner @ setup @ asked @ displayed, Inl e)
                         | Inr u \<Rightarrow>
                             (banner @ setup @ asked @ displayed @
                                [Print Component_complete, Print What_you_learned,
                                 Print Learned_configure, Print Learned_call,
                                 Print Learned_parse, Print Next_component],
                              Inr ()))))"

section \<open>check\_models.py\<close>

text \<open>The four lines printed for a model, and the rule of line 42.\<close>

definition check_describe_model :: "model_descriptor \<Rightarrow> check_line event list" where
  "check_describe_model model =
     [Print (CM_model_name (name model)),
      Print (CM_display_name (display_name model)),
      Print (CM_supports (supports_generate model)),
      Print (CM_all_methods (join '', '' (supported_generation_methods model))),
      Print (CM_dashes 80)]"

text \<open>
  Lines 12 to 59. The list \<^verbatim>\<open>generate_models\<close> is built by the same loop as
  \<^verbatim>\<open>working_models\<close> above (lines 29 to 40). Everything after \<^verbatim>\<open>genai.configure\<close> is
  inside \<^verbatim>\<open>try\<close>, so this \<^verbatim>\<open>main\<close> always returns.
\<close>

definition check_models_main :: "world \<Rightarrow> check_line event list" where
  "check_models_main w =
     (let api_key = getenv_GOOGLE_API_KEY w
      in if \<not> truthy api_key then
           [Print CM_key_not_found, Print CM_set_it_with]
         else
           (case api_key of Some k \<Rightarrow> [Configure k] | None \<Rightarrow> []) @
           (case list_models w of
              Inl e \<Rightarrow>
                [Print CM_fetching, Call_list_models, Print (CM_error e),
                 Print CM_possible_issues, Print CM_issue_key,
                 Print CM_issue_network, Print CM_issue_quota]
            | Inr models \<Rightarrow>
                (let generate_models = working_models_loop models []
                 in [Print CM_fetching, Call_list_models,
                     Print CM_available_heading, Print (CM_equals 80)]
                    @ concat (map check_describe_model models)
                    @ [Print CM_usable_heading]
                    @ (if generate_models \<noteq> [] then map (\<lambda>n. Print (CM_usable n)) generate_models
                       else [Print CM_none_usable])
                    @ [Print (CM_total (length models)),
                       Print (CM_total_generate (length generate_models))])))"


section \<open>Sample inputs\<close>

text \<open>
  A listing of five models: three support \<^verbatim>\<open>generateContent\<close>, two of them under a
  preferred name; the first preferred name is listed, but without the capability.
\<close>

definition sample_models :: "model_descriptor list" where
  "sample_models =
     [\<lparr>name = ''models/embedding-001'', display_name = ''Embedding 001'',
       supported_generation_methods = [''embedContent'']\<rparr>,
      \<lparr>name = ''models/a'', display_name = ''A'',
       supported_generation_methods = [''generateContent'', ''countTokens'']\<rparr>,
      \<lparr>name = ''models/gemini-flash-latest'', display_name = ''Gemini Flash Latest'',
       supported_generation_methods = [''generateContent'']\<rparr>,
      \<lparr>name = ''models/gemini-2.5-flash'', display_name = ''Gemini 2.5 Flash'',
       supported_generation_methods = [''countTokens'']\<rparr>,
      \<lparr>name = ''models/gemini-2.0-flash'', display_name = ''Gemini 2.0 Flash'',
       supported_generation_methods = [''generateContent'']\<rparr>]"

text \<open>A listing with capable models, none of them preferred.\<close>

definition plain_models :: "model_descriptor list" where
  "plain_models =
     [\<lparr>name = ''models/embedding-001'', display_name = ''Embedding 001'',
       supported_generation_methods = [''embedContent'']\<rparr>,
      \<lparr>name = ''models/b'', display_name = ''B'',
       supported_generation_methods = [''countTokens'', ''generateContent'']\<rparr>,
      \<lparr>name = ''models/a'', display_name = ''A'',
       supported_generation_methods = [''generateContent'']\<rparr>]"

text \<open>The same listing with other display names.\<close>

definition renamed_models :: "model_descriptor list" where
  "renamed_models =
     [\<lparr>name = ''models/embedding-001'', display_name = ''Text embedding'',
       supported_generation_methods = [''embedContent'']\<rparr>,
      \<lparr>name = ''models/b'', display_name = ''Second'',
       supported_generation_methods = [''generateContent'', ''countTokens'']\<rparr>,
      \<lparr>name = ''models/a'', display_name = ''First'',
       supported_generation_methods = [''generateContent'']\<rparr>]"

text \<open>A listing in which no model supports \<^verbatim>\<open>generateContent\<close>.\<close>

definition incapable_models :: "model_descriptor list" where
  "incapable_models =
     [\<lparr>name = ''models/embedding-001'', display_name = ''Embedding 001'',
       supported_generation_methods = [''embedContent'']\<rparr>,
      \<lparr>name = ''models/gemini-2.5-flash'', display_name = ''Gemini 2.5 Flash'',
       supported_generation_methods = [''countTokens'']\<rparr>]"

definition sample_response :: response where
  "sample_response =
     \<lparr>response_text = Inr ''An AI agent acts on goals.'',
      candidates =
        [\<lparr>finish_reason = ''STOP'',
          safety_ratings = [(''HARM_CATEGORY_HARASSMENT'', ''NEGLIGIBLE'')]\<rparr>]\<rparr>"

text \<open>
  A response without candidates: reading its text raises.
\<close>

definition empty_response :: response where
  "empty_response =
     \<lparr>response_text = Inl (ValueError ''response.candidates is empty''),
      candidates = []\<rparr>"

text \<open>
  A response with two candidates: reading its text raises, although a first candidate
  exists.
\<close>

definition two_candidates_response :: response where
  "two_candidates_response =
     \<lparr>response_text = Inl (ValueError ''response contains multiple candidates''),
      candidates =
        [\<lparr>finish_reason = ''STOP'', safety_ratings = []\<rparr>,
         \<lparr>finish_reason = ''MAX_TOKENS'', safety_ratings = []\<rparr>]\<rparr>"

text \<open>
  A response without candidates whose text can nevertheless be read; it reaches
  \<^verbatim>\<open>candidates[0]\<close>.
\<close>

definition bare_response :: response where
  "bare_response = \<lparr>response_text = Inr [], candidates = []\<rparr>"

text \<open>
  \<open>world_of key listing\<close> is a run in which every generation request is answered;
  \<open>rejecting_world\<close> is one in which the provider rejects every generation request.
\<close>

definition world_of :: "string option \<Rightarrow> exn + model_descriptor list \<Rightarrow> world" where
  "world_of key listing =
     \<lparr>getenv_GOOGLE_API_KEY = key,
      list_models = listing,
      generate_content = (\<lambda>model question. Inr sample_response)\<rparr>"


section \<open>The loops of setup\_gemini\<close>

lemma working_models_loop_eq:
  "working_models_loop models acc = acc @ map name (filter supports_generate models)"
  by (induction models arbitrary: acc) simp_all

lemma preferred_loop_None:
  "(preferred_loop ps wm = None) = (set ps \<inter> set wm = {})"
  by (induction ps) auto

lemma preferred_loop_Some:
  "preferred_loop ps wm = Some p \<Longrightarrow>
     \<exists>i < length ps. p = ps ! i \<and> p \<in> set wm \<and> (\<forall>j < i. ps ! j \<notin> set wm)"
proof (induction ps)
  case Nil
  then show ?case by simp
next
  case (Cons a ps)
  show ?case
  proof (cases "a \<in> set wm")
    case True
    with Cons.prems have "p = a" by simp
    with True show ?thesis by (intro exI [of _ 0]) simp
  next
    case False
    with Cons.prems have "preferred_loop ps wm = Some p" by simp
    from Cons.IH [OF this] obtain i where
      i: "i < length ps" "p = ps ! i" "p \<in> set wm" "\<forall>j < i. ps ! j \<notin> set wm" by blast
    have "\<forall>j < Suc i. (a # ps) ! j \<notin> set wm"
      using False i(4) by (auto simp: less_Suc_eq_0_disj)
    with i show ?thesis by (intro exI [of _ "Suc i"]) simp
  qed
qed

lemma preferred_loop_cong:
  "set wm = set wm' \<Longrightarrow> preferred_loop ps wm = preferred_loop ps wm'"
  by (induction ps) simp_all

lemma preferred_loop_truthy:
  "preferred_loop preferred_models wm = Some p \<Longrightarrow> p \<noteq> []"
  by (auto simp: preferred_models_def split: if_splits)

lemma select_model_name_eq:
  "select_model_name first wm =
     (case preferred_loop preferred_models wm of None \<Rightarrow> first | Some p \<Rightarrow> p)"
  by (auto simp: select_model_name_def Let_def dest: preferred_loop_truthy split: option.splits)

section \<open>The values of list\_available\_models and setup\_gemini\<close>

lemma snd_list_available_models:
  "snd (list_available_models w) = (case list_models w of Inl e \<Rightarrow> None | Inr ms \<Rightarrow> Some ms)"
  by (simp add: list_available_models_def split: sum.splits)

lemma snd_setup_gemini:
  assumes "truthy (getenv_GOOGLE_API_KEY w)" and "list_models w = Inr ms"
  shows "snd (setup_gemini w) =
           (case map name (filter supports_generate ms) of
              [] \<Rightarrow> None
            | first # others \<Rightarrow>
                Some (GenerativeModel (select_model_name first (first # others))))"
  using assms
  by (cases ms)
     (simp_all add: setup_gemini_def list_available_models_def Let_def
        working_models_loop_eq split: list.splits)

lemma snd_setup_gemini_Some:
  assumes "truthy (getenv_GOOGLE_API_KEY w)" and "list_models w = Inr ms"
    and "map name (filter supports_generate ms) = first # others"
  shows "snd (setup_gemini w) =
           Some (GenerativeModel
             (case preferred_loop preferred_models (map name (filter supports_generate ms)) of
                None \<Rightarrow> first
              | Some p \<Rightarrow> p))"
  using assms(3) by (simp add: snd_setup_gemini [OF assms(1,2)] select_model_name_eq)

lemma snd_setup_gemini_None:
  assumes "truthy (getenv_GOOGLE_API_KEY w)" and "list_models w = Inr ms"
    and "filter supports_generate ms = []"
  shows "snd (setup_gemini w) = None"
  using assms(3) by (simp add: snd_setup_gemini [OF assms(1,2)])

section \<open>The effects of a run\<close>

lemma network_describe_model:
  "filter is_network_call (concat (map describe_model ms)) = []"
  by (induction ms) (simp_all add: describe_model_def)

lemma network_check_describe_model:
  "filter is_network_call (concat (map check_describe_model ms)) = []"
  by (induction ms) (simp_all add: check_describe_model_def)

lemma no_message_describe_model:
  "Print No_models_support \<notin> set (concat (map describe_model ms))"
  by (induction ms) (simp_all add: describe_model_def)

lemma setup_gemini_no_key:
  "\<not> truthy (getenv_GOOGLE_API_KEY w) \<Longrightarrow>
     setup_gemini w = ([Print Key_not_found, Print Key_get_from, Print Key_then_run], None)"
  by (simp add: setup_gemini_def)

lemma setup_gemini_listing_failed:
  "truthy (getenv_GOOGLE_API_KEY w) \<Longrightarrow> list_models w = Inl e \<Longrightarrow>
     \<exists>k. setup_gemini w =
       ([Configure k, Print Checking_available_models, Call_list_models,
         Print (Error_listing_models e)], None)"
  by (cases "getenv_GOOGLE_API_KEY w")
     (simp_all add: setup_gemini_def list_available_models_def)

lemma setup_gemini_listed:
  assumes "truthy (getenv_GOOGLE_API_KEY w)" and "list_models w = Inr ms"
  shows "\<exists>k. setup_gemini w =
     (case map name (filter supports_generate ms) of
        [] \<Rightarrow>
          ([Configure k, Print Checking_available_models, Call_list_models,
            Print Available_models_heading, Print (Dashes 50)]
           @ concat (map describe_model ms)
           @ (if ms = [] then [] else [Print No_models_support]), None)
      | first # others \<Rightarrow>
          ([Configure k, Print Checking_available_models, Call_list_models,
            Print Available_models_heading, Print (Dashes 50)]
           @ concat (map describe_model ms)
           @ [Print (Using_model (select_model_name first (first # others))),
              Print Configured_successfully,
              Print (Using_model_again (select_model_name first (first # others)))],
           Some (GenerativeModel (select_model_name first (first # others)))))"
proof (cases "getenv_GOOGLE_API_KEY w")
  case None
  with assms(1) show ?thesis by simp
next
  case (Some k)
  show ?thesis
  proof (cases ms)
    case Nil
    with assms Some show ?thesis
      by (simp add: setup_gemini_def list_available_models_def)
  next
    case (Cons m ms')
    with assms Some show ?thesis
      by (simp add: setup_gemini_def list_available_models_def Let_def
            working_models_loop_eq split: list.splits)
  qed
qed

lemma network_setup_gemini:
  "filter is_network_call (fst (setup_gemini w)) =
     (if truthy (getenv_GOOGLE_API_KEY w) then [Call_list_models] else [])"
proof (cases "truthy (getenv_GOOGLE_API_KEY w)")
  case False
  then show ?thesis by (simp add: setup_gemini_no_key)
next
  case True
  show ?thesis
  proof (cases "list_models w")
    case (Inl e)
    from setup_gemini_listing_failed [OF True Inl] True show ?thesis by auto
  next
    case (Inr ms)
    from setup_gemini_listed [OF True Inr] obtain k where
      "setup_gemini w =
     (case map name (filter supports_generate ms) of
        [] \<Rightarrow>
          ([Configure k, Print Checking_available_models, Call_list_models,
            Print Available_models_heading, Print (Dashes 50)]
           @ concat (map describe_model ms)
           @ (if ms = [] then [] else [Print No_models_support]), None)
      | first # others \<Rightarrow>
          ([Configure k, Print Checking_available_models, Call_list_models,
            Print Available_models_heading, Print (Dashes 50)]
           @ concat (map describe_model ms)
           @ [Print (Using_model (select_model_name first (first # others))),
              Print Configured_successfully,
              Print (Using_model_again (select_model_name first (first # others)))],
           Some (GenerativeModel (select_model_name first (first # others)))))" by blast
    with True show ?thesis
      by (simp add: network_describe_model split: list.splits)
  qed
qed

lemma network_display_response:
  "filter is_network_call (fst (display_response r)) = []"
  by (simp add: display_response_def Let_def split: list.splits sum.splits)

lemma main_no_model:
  "setup_gemini w = (tr, None) \<Longrightarrow>
     main w = ([Print (Equals 70), Print Component_title, Print (Equals 70)] @ tr, Inr ())"
  by (simp add: main_def)

lemma main_rejected:
  "setup_gemini w = (tr, Some m) \<Longrightarrow> generate_content w m question = Inl e \<Longrightarrow>
     main w =
       ([Print (Equals 70), Print Component_title, Print (Equals 70)] @ tr @
        [Print (Sending_question question),
         Call_generate_content (model_name_of m) question], Inl e)"
  by (simp add: main_def ask_question_def)

lemma main_answered:
  "setup_gemini w = (tr, Some m) \<Longrightarrow> generate_content w m question = Inr r \<Longrightarrow>
     main w =
       ([Print (Equals 70), Print Component_title, Print (Equals 70)] @ tr @
        [Print (Sending_question question),
         Call_generate_content (model_name_of m) question] @
        fst (display_response r) @
        (case snd (display_response r) of
           Inl e \<Rightarrow> []
         | Inr u \<Rightarrow>
             [Print Component_complete, Print What_you_learned, Print Learned_configure,
              Print Learned_call, Print Learned_parse, Print Next_component]),
        snd (display_response r))"
  by (cases "display_response r")
     (simp add: main_def ask_question_def split: sum.splits)

lemma network_main:
  "filter is_network_call (fst (main w)) =
     (case snd (setup_gemini w) of
        None \<Rightarrow> (if truthy (getenv_GOOGLE_API_KEY w) then [Call_list_models] else [])
      | Some m \<Rightarrow> [Call_list_models, Call_generate_content (model_name_of m) question])"
proof (cases "setup_gemini w")
  case (Pair tr model)
  have tr: "filter is_network_call tr =
      (if truthy (getenv_GOOGLE_API_KEY w) then [Call_list_models] else [])"
    using network_setup_gemini [of w] Pair by simp
  show ?thesis
  proof (cases model)
    case None
    with Pair tr show ?thesis by (simp add: main_no_model)
  next
    case (Some m)
    have key: "truthy (getenv_GOOGLE_API_KEY w)"
      using Some Pair setup_gemini_no_key [of w] by (cases "truthy (getenv_GOOGLE_API_KEY w)") auto
    show ?thesis
    proof (cases "generate_content w m question")
      case (Inl e)
      with Pair Some tr key show ?thesis by (simp add: main_rejected)
    next
      case (Inr r)
      with Pair Some tr key show ?thesis
        by (simp add: main_answered network_display_response split: sum.splits)
    qed
  qed
qed

lemma find_filter:
  "find P xs = Some x \<Longrightarrow> \<exists>rest. filter P xs = x # rest"
  by (induction xs) (auto split: if_splits)

lemma capable_names_cong:
  assumes "map name ms = map name ms'"
    and "map (\<lambda>m. set (supported_generation_methods m)) ms =
         map (\<lambda>m. set (supported_generation_methods m)) ms'"
  shows "map name (filter supports_generate ms) = map name (filter supports_generate ms')"
proof -
  from assms(1) have "length ms = length ms'" by (rule map_eq_imp_length_eq)
  then show ?thesis using assms
    by (induction ms ms' rule: list_induct2) (auto simp: supports_generate_def)
qed

section \<open>The capable names of the sample listing\<close>

lemma sample_capable:
  "map name (filter supports_generate sample_models) =
     [''models/a'', ''models/gemini-flash-latest'', ''models/gemini-2.0-flash'']"
  by (simp add: sample_models_def supports_generate_def)

section \<open>The claims\<close>

subsection \<open>Selection among the capable models\<close>

text \<open>
  Claim C1. When the key is set and the listing succeeds, and the name of at least one
  model that supports \<^verbatim>\<open>generateContent\<close> is in the preference list, \<^verbatim>\<open>setup_gemini\<close>
  builds the model of the preferred name of highest priority among the capable ones: it is
  the entry \<open>i\<close> of the preference list, that entry is the name of a capable model, and no
  earlier entry is. The result does not depend on positions in the listing: any other
  listing with the same set of capable names gives the same model.
\<close>

theorem C1_highest_priority_preferred:
  assumes key: "truthy (getenv_GOOGLE_API_KEY w)"
    and listing: "list_models w = Inr ms"
    and present: "\<exists>p. p \<in> set preferred_models \<and> p \<in> set (map name (filter supports_generate ms))"
  shows "(\<exists>i < length preferred_models.
            snd (setup_gemini w) = Some (GenerativeModel (preferred_models ! i)) \<and>
            preferred_models ! i \<in> set (map name (filter supports_generate ms)) \<and>
            (\<forall>j < i. preferred_models ! j \<notin> set (map name (filter supports_generate ms)))) \<and>
         (\<forall>w' ms'. truthy (getenv_GOOGLE_API_KEY w') \<longrightarrow> list_models w' = Inr ms' \<longrightarrow>
            set (map name (filter supports_generate ms')) =
              set (map name (filter supports_generate ms)) \<longrightarrow>
            snd (setup_gemini w') = snd (setup_gemini w))"
proof -
  let ?wm = "map name (filter supports_generate ms)"
  from present obtain p0 where "p0 \<in> set ?wm" by blast
  then have ne: "?wm \<noteq> []" by (metis empty_iff list.set(1))
  from present have "preferred_loop preferred_models ?wm \<noteq> None"
    by (auto simp: preferred_loop_None)
  then obtain p where p: "preferred_loop preferred_models ?wm = Some p" by blast
  from ne obtain first others where wm: "?wm = first # others" by (cases ?wm) auto
  have res: "snd (setup_gemini w) = Some (GenerativeModel p)"
    using p by (simp add: snd_setup_gemini_Some [OF key listing wm])
  from preferred_loop_Some [OF p] obtain i where
    i: "i < length preferred_models" "p = preferred_models ! i" "p \<in> set ?wm"
       "\<forall>j < i. preferred_models ! j \<notin> set ?wm" by blast
  have first: "\<exists>i < length preferred_models.
            snd (setup_gemini w) = Some (GenerativeModel (preferred_models ! i)) \<and>
            preferred_models ! i \<in> set ?wm \<and> (\<forall>j < i. preferred_models ! j \<notin> set ?wm)"
    using i res by blast
  have second: "snd (setup_gemini w') = snd (setup_gemini w)"
    if k': "truthy (getenv_GOOGLE_API_KEY w')" and l': "list_models w' = Inr ms'"
      and eq: "set (map name (filter supports_generate ms')) = set ?wm" for w' ms'
  proof -
    let ?wm' = "map name (filter supports_generate ms')"
    have p': "preferred_loop preferred_models ?wm' = Some p"
      using p preferred_loop_cong [OF eq, of preferred_models] by simp
    from eq ne have "?wm' \<noteq> []" by (metis set_empty)
    then obtain first' others' where wm': "?wm' = first' # others'" by (cases ?wm') auto
    have "snd (setup_gemini w') = Some (GenerativeModel p)"
      using p' by (simp add: snd_setup_gemini_Some [OF k' l' wm'])
    with res show ?thesis by simp
  qed
  from first second show ?thesis by blast
qed

theorem C1_highest_priority_preferred_witness:
  "truthy (getenv_GOOGLE_API_KEY (world_of (Some ''secret'') (Inr sample_models))) \<and>
   list_models (world_of (Some ''secret'') (Inr sample_models)) = Inr sample_models \<and>
   ''models/gemini-flash-latest'' \<in> set preferred_models \<and>
   ''models/gemini-flash-latest'' \<in> set (map name (filter supports_generate sample_models)) \<and>
   snd (setup_gemini (world_of (Some ''secret'') (Inr sample_models))) =
     Some (GenerativeModel ''models/gemini-2.0-flash'')"
proof -
  let ?w = "world_of (Some ''secret'') (Inr sample_models)"
  have key: "truthy (getenv_GOOGLE_API_KEY ?w)" by (simp add: world_of_def)
  have listing: "list_models ?w = Inr sample_models" by (simp add: world_of_def)
  have pref: "''models/gemini-flash-latest'' \<in> set preferred_models"
    by (simp add: preferred_models_def)
  have cap: "''models/gemini-flash-latest'' \<in> set (map name (filter supports_generate sample_models))"
    by (simp add: sample_capable)
  have present: "\<exists>p. p \<in> set preferred_models \<and> p \<in> set (map name (filter supports_generate sample_models))"
    using pref cap by blast
  from C1_highest_priority_preferred [OF key listing present]
  obtain i where i: "i < length preferred_models"
      "snd (setup_gemini ?w) = Some (GenerativeModel (preferred_models ! i))"
      "preferred_models ! i \<in> set (map name (filter supports_generate sample_models))"
      "\<forall>j < i. preferred_models ! j \<notin> set (map name (filter supports_generate sample_models))"
    by blast
  from i(1) have "i = 0 \<or> i = 1 \<or> i = 2" by (auto simp: preferred_models_def)
  then have "i = 1"
  proof (elim disjE)
    assume "i = 0" with i(3) show ?thesis by (simp add: preferred_models_def sample_capable)
  next
    assume "i = 1" then show ?thesis .
  next
    assume "i = 2"
    with i(4) have "preferred_models ! 1 \<notin> set (map name (filter supports_generate sample_models))"
      by simp
    then show ?thesis by (simp add: preferred_models_def sample_capable)
  qed
  with i(2) have "snd (setup_gemini ?w) = Some (GenerativeModel ''models/gemini-2.0-flash'')"
    by (simp add: preferred_models_def)
  with key listing pref cap show ?thesis by blast
qed

text \<open>
  Claim C2. When the key is set and the listing succeeds, some model supports
  \<^verbatim>\<open>generateContent\<close>, and no preferred name is the name of a capable model, then
  \<^verbatim>\<open>setup_gemini\<close> builds the model named by the first capable descriptor of the listing,
  in the order the provider returned it.
\<close>

theorem C2_first_capable_in_order:
  assumes key: "truthy (getenv_GOOGLE_API_KEY w)"
    and listing: "list_models w = Inr ms"
    and first_capable: "find supports_generate ms = Some m"
    and none_preferred:
      "\<forall>p \<in> set preferred_models. p \<notin> set (map name (filter supports_generate ms))"
  shows "snd (setup_gemini w) = Some (GenerativeModel (name m))"
proof -
  from find_filter [OF first_capable] obtain rest where
    "filter supports_generate ms = m # rest" by blast
  then have wm: "map name (filter supports_generate ms) = name m # map name rest" by simp
  from none_preferred
  have "preferred_loop preferred_models (map name (filter supports_generate ms)) = None"
    by (auto simp: preferred_loop_None)
  then show ?thesis by (simp add: snd_setup_gemini_Some [OF key listing wm])
qed

theorem C2_first_capable_in_order_witness:
  "truthy (getenv_GOOGLE_API_KEY (world_of (Some ''secret'') (Inr plain_models))) \<and>
   list_models (world_of (Some ''secret'') (Inr plain_models)) = Inr plain_models \<and>
   find supports_generate plain_models = Some (plain_models ! 1) \<and>
   set preferred_models \<inter> set (map name (filter supports_generate plain_models)) = {} \<and>
   snd (setup_gemini (world_of (Some ''secret'') (Inr plain_models))) =
     Some (GenerativeModel ''models/b'')"
proof -
  let ?w = "world_of (Some ''secret'') (Inr plain_models)"
  have key: "truthy (getenv_GOOGLE_API_KEY ?w)" by (simp add: world_of_def)
  have listing: "list_models ?w = Inr plain_models" by (simp add: world_of_def)
  have first_capable: "find supports_generate plain_models = Some (plain_models ! 1)"
    by (simp add: plain_models_def supports_generate_def)
  have disjoint:
    "set preferred_models \<inter> set (map name (filter supports_generate plain_models)) = {}"
    by (simp add: plain_models_def supports_generate_def preferred_models_def)
  then have none_preferred:
    "\<forall>p \<in> set preferred_models. p \<notin> set (map name (filter supports_generate plain_models))"
    by blast
  have "name (plain_models ! 1) = ''models/b''" by (simp add: plain_models_def)
  with C2_first_capable_in_order [OF key listing first_capable none_preferred]
  have "snd (setup_gemini ?w) = Some (GenerativeModel ''models/b'')" by simp
  with key listing first_capable disjoint show ?thesis by blast
qed

text \<open>
  Claim C3. When the key is set and the listing succeeds with an empty list, or with a
  list in which no descriptor supports \<^verbatim>\<open>generateContent\<close>, \<^verbatim>\<open>setup_gemini\<close> returns
  \<^verbatim>\<open>None\<close>: no model name is chosen and no model is built. The line "No models support
  generateContent!" is printed exactly when the list is not empty; on the empty list
  line 76 returns before it.
\<close>

theorem C3_no_capable_model:
  assumes key: "truthy (getenv_GOOGLE_API_KEY w)"
    and listing: "list_models w = Inr ms"
    and incapable: "\<forall>m \<in> set ms. \<not> supports_generate m"
  shows "snd (setup_gemini w) = None \<and>
         (Print No_models_support \<in> set (fst (setup_gemini w))) = (ms \<noteq> [])"
proof -
  from incapable have none: "filter supports_generate ms = []" by (simp add: filter_empty_conv)
  from setup_gemini_listed [OF key listing] none obtain k where
    "setup_gemini w =
       ([Configure k, Print Checking_available_models, Call_list_models,
         Print Available_models_heading, Print (Dashes 50)]
        @ concat (map describe_model ms)
        @ (if ms = [] then [] else [Print No_models_support]), None)"
    by auto
  then show ?thesis by (simp add: no_message_describe_model)
qed

theorem C3_no_capable_model_witness:
  "snd (setup_gemini (world_of (Some ''secret'') (Inr []))) = None \<and>
   Print No_models_support \<notin> set (fst (setup_gemini (world_of (Some ''secret'') (Inr [])))) \<and>
   filter supports_generate incapable_models = [] \<and>
   snd (setup_gemini (world_of (Some ''secret'') (Inr incapable_models))) = None \<and>
   Print No_models_support
     \<in> set (fst (setup_gemini (world_of (Some ''secret'') (Inr incapable_models))))"
proof -
  let ?e = "world_of (Some ''secret'') (Inr [])"
  let ?w = "world_of (Some ''secret'') (Inr incapable_models)"
  have key: "truthy (getenv_GOOGLE_API_KEY ?e)" "truthy (getenv_GOOGLE_API_KEY ?w)"
    by (simp_all add: world_of_def)
  have listing: "list_models ?e = Inr []" "list_models ?w = Inr incapable_models"
    by (simp_all add: world_of_def)
  have none: "filter supports_generate incapable_models = []"
    by (simp add: incapable_models_def supports_generate_def)
  then have incapable: "\<forall>m \<in> set incapable_models. \<not> supports_generate m"
    by (simp add: filter_empty_conv)
  have ne: "incapable_models \<noteq> []" by (simp add: incapable_models_def)
  from C3_no_capable_model [OF key(1) listing(1)]
  have e: "snd (setup_gemini ?e) = None \<and> Print No_models_support \<notin> set (fst (setup_gemini ?e))"
    by simp
  from C3_no_capable_model [OF key(2) listing(2) incapable] ne
  have w: "snd (setup_gemini ?w) = None \<and> Print No_models_support \<in> set (fst (setup_gemini ?w))"
    by simp
  from e w none show ?thesis by blast
qed

text \<open>
  Claim C4. On the listing of the two capable descriptors \<^verbatim>\<open>models/a\<close> and
  \<^verbatim>\<open>models/gemini-2.0-flash\<close>, in this order, \<^verbatim>\<open>setup_gemini\<close> builds the model
  \<^verbatim>\<open>models/gemini-2.0-flash\<close>, whatever the display names are.
\<close>

theorem C4_preferred_over_earlier:
  assumes key: "truthy (getenv_GOOGLE_API_KEY w)"
    and listing: "list_models w =
      Inr [\<lparr>name = ''models/a'', display_name = d1,
            supported_generation_methods = [''generateContent'']\<rparr>,
           \<lparr>name = ''models/gemini-2.0-flash'', display_name = d2,
            supported_generation_methods = [''generateContent'']\<rparr>]"
  shows "snd (setup_gemini w) = Some (GenerativeModel ''models/gemini-2.0-flash'')"
  by (simp add: snd_setup_gemini [OF key listing] supports_generate_def
        select_model_name_eq preferred_models_def)

theorem C4_preferred_over_earlier_witness:
  "truthy (getenv_GOOGLE_API_KEY (world_of (Some ''secret'')
      (Inr [\<lparr>name = ''models/a'', display_name = ''A'',
              supported_generation_methods = [''generateContent'']\<rparr>,
            \<lparr>name = ''models/gemini-2.0-flash'', display_name = ''Gemini 2.0 Flash'',
              supported_generation_methods = [''generateContent'']\<rparr>]))) \<and>
   snd (setup_gemini (world_of (Some ''secret'')
      (Inr [\<lparr>name = ''models/a'', display_name = ''A'',
              supported_generation_methods = [''generateContent'']\<rparr>,
            \<lparr>name = ''models/gemini-2.0-flash'', display_name = ''Gemini 2.0 Flash'',
              supported_generation_methods = [''generateContent'']\<rparr>]))) =
     Some (GenerativeModel ''models/gemini-2.0-flash'')"
proof -
  let ?ms = "[\<lparr>name = ''models/a'', display_name = ''A'',
              supported_generation_methods = [''generateContent'']\<rparr>,
            \<lparr>name = ''models/gemini-2.0-flash'', display_name = ''Gemini 2.0 Flash'',
              supported_generation_methods = [''generateContent'']\<rparr>]"
  have key: "truthy (getenv_GOOGLE_API_KEY (world_of (Some ''secret'') (Inr ?ms)))"
    by (simp add: world_of_def)
  have listing: "list_models (world_of (Some ''secret'') (Inr ?ms)) = Inr ?ms"
    by (simp add: world_of_def)
  from key C4_preferred_over_earlier [OF key listing] show ?thesis by blast
qed

subsection \<open>The credential\<close>

text \<open>
  Claim C5. When \<^verbatim>\<open>GOOGLE_API_KEY\<close> is not set (or is the empty string), both programs
  print their guidance lines and return: \<^verbatim>\<open>basic_connection.main\<close> prints its banner and
  the three lines of \<^verbatim>\<open>setup_gemini\<close>, \<^verbatim>\<open>check_models.main\<close> prints its two lines, and
  neither makes a network call.
\<close>

theorem C5_missing_key_no_network_call:
  assumes "\<not> truthy (getenv_GOOGLE_API_KEY w)"
  shows "main w =
           ([Print (Equals 70), Print Component_title, Print (Equals 70),
             Print Key_not_found, Print Key_get_from, Print Key_then_run], Inr ()) \<and>
         check_models_main w = [Print CM_key_not_found, Print CM_set_it_with] \<and>
         filter is_network_call (fst (main w)) = [] \<and>
         filter is_network_call (check_models_main w) = []"
proof -
  have m: "main w =
           ([Print (Equals 70), Print Component_title, Print (Equals 70),
             Print Key_not_found, Print Key_get_from, Print Key_then_run], Inr ())"
    using main_no_model [OF setup_gemini_no_key [OF assms]] by simp
  have c: "check_models_main w = [Print CM_key_not_found, Print CM_set_it_with]"
    using assms by (simp add: check_models_main_def)
  show ?thesis by (simp add: m c)
qed

theorem C5_missing_key_no_network_call_witness:
  "getenv_GOOGLE_API_KEY (world_of None (Inr sample_models)) = None \<and>
   main (world_of None (Inr sample_models)) =
     ([Print (Equals 70), Print Component_title, Print (Equals 70),
       Print Key_not_found, Print Key_get_from, Print Key_then_run], Inr ()) \<and>
   check_models_main (world_of None (Inr sample_models)) =
     [Print CM_key_not_found, Print CM_set_it_with] \<and>
   filter is_network_call (fst (main (world_of None (Inr sample_models)))) = [] \<and>
   filter is_network_call (check_models_main (world_of None (Inr sample_models))) = []"
proof -
  have absent: "getenv_GOOGLE_API_KEY (world_of None (Inr sample_models)) = None"
    by (simp add: world_of_def)
  then have "\<not> truthy (getenv_GOOGLE_API_KEY (world_of None (Inr sample_models)))"
    by simp
  from C5_missing_key_no_network_call [OF this] absent show ?thesis by blast
qed

subsection \<open>The model of the generation request\<close>

text \<open>
  Claim C6. In every run, the model that \<^verbatim>\<open>setup_gemini\<close> builds, and the model of every
  generation request that \<^verbatim>\<open>main\<close> issues, is named by a descriptor of the listing that
  supports \<^verbatim>\<open>generateContent\<close>.
\<close>

theorem C6_model_name_is_capable:
  "(\<forall>m. snd (setup_gemini w) = Some m \<longrightarrow>
      (\<exists>ms d. list_models w = Inr ms \<and> d \<in> set ms \<and> supports_generate d \<and>
         name d = model_name_of m)) \<and>
   (\<forall>n q. Call_generate_content n q \<in> set (fst (main w)) \<longrightarrow>
      (\<exists>ms d. list_models w = Inr ms \<and> d \<in> set ms \<and> supports_generate d \<and>
         name d = n))"
proof -
  have built: "\<exists>ms d. list_models w = Inr ms \<and> d \<in> set ms \<and> supports_generate d \<and>
      name d = model_name_of m" if m: "snd (setup_gemini w) = Some m" for m
  proof -
    have key: "truthy (getenv_GOOGLE_API_KEY w)"
      using m setup_gemini_no_key [of w] by (cases "truthy (getenv_GOOGLE_API_KEY w)") auto
    show ?thesis
    proof (cases "list_models w")
      case (Inl e)
      from setup_gemini_listing_failed [OF key Inl] m show ?thesis by auto
    next
      case (Inr ms)
      let ?wm = "map name (filter supports_generate ms)"
      show ?thesis
      proof (cases ?wm)
        case Nil
        then have "filter supports_generate ms = []" by simp
        from snd_setup_gemini_None [OF key Inr this] m show ?thesis by simp
      next
        case (Cons first others)
        have "model_name_of m \<in> set ?wm"
        proof (cases "preferred_loop preferred_models ?wm")
          case None
          with snd_setup_gemini_Some [OF key Inr Cons] m Cons show ?thesis by auto
        next
          case (Some p)
          from preferred_loop_Some [OF Some] have "p \<in> set ?wm" by blast
          with snd_setup_gemini_Some [OF key Inr Cons] m Some show ?thesis by auto
        qed
        then obtain d where "d \<in> set ms" "supports_generate d" "name d = model_name_of m"
          by auto
        with Inr show ?thesis by blast
      qed
    qed
  qed
  have requested: "\<exists>ms d. list_models w = Inr ms \<and> d \<in> set ms \<and> supports_generate d \<and>
      name d = n" if call: "Call_generate_content n q \<in> set (fst (main w))" for n q
  proof -
    from call have "Call_generate_content n q \<in> set (filter is_network_call (fst (main w)))"
      by simp
    then obtain m where "snd (setup_gemini w) = Some m" "n = model_name_of m"
      by (auto simp: network_main split: option.splits if_splits)
    with built [of m] show ?thesis by simp
  qed
  from built requested show ?thesis by blast
qed

theorem C6_model_name_is_capable_witness:
  "snd (setup_gemini (world_of (Some ''secret'') (Inr sample_models))) =
     Some (GenerativeModel ''models/gemini-2.0-flash'') \<and>
   Call_generate_content ''models/gemini-2.0-flash'' question
     \<in> set (fst (main (world_of (Some ''secret'') (Inr sample_models)))) \<and>
   (\<exists>d. d \<in> set sample_models \<and> supports_generate d \<and>
      name d = ''models/gemini-2.0-flash'')"
proof -
  let ?w = "world_of (Some ''secret'') (Inr sample_models)"
  have key: "truthy (getenv_GOOGLE_API_KEY ?w)" by (simp add: world_of_def)
  have listing: "list_models ?w = Inr sample_models" by (simp add: world_of_def)
  have built: "snd (setup_gemini ?w) = Some (GenerativeModel ''models/gemini-2.0-flash'')"
    by (simp add: snd_setup_gemini [OF key listing] sample_capable select_model_name_eq
          preferred_models_def)
  have "filter is_network_call (fst (main ?w)) =
      [Call_list_models, Call_generate_content ''models/gemini-2.0-flash'' question]"
    by (simp add: network_main built)
  then have "Call_generate_content ''models/gemini-2.0-flash'' question
      \<in> set (filter is_network_call (fst (main ?w)))" by simp
  then have call: "Call_generate_content ''models/gemini-2.0-flash'' question
      \<in> set (fst (main ?w))" by simp
  from C6_model_name_is_capable [of ?w] call listing
  have "\<exists>d. d \<in> set sample_models \<and> supports_generate d \<and>
      name d = ''models/gemini-2.0-flash''" by auto
  with built call show ?thesis by blast
qed

subsection \<open>Errors\<close>




text \<open>
  Claim C8. \<^verbatim>\<open>list_available_models\<close> returns the list the provider gave, so the empty
  list when the account sees no model; it returns \<^verbatim>\<open>None\<close> exactly when the listing
  call raises. The two results differ.
\<close>

theorem C8_empty_listing_is_not_an_error:
  "(list_models w = Inr [] \<longrightarrow> snd (list_available_models w) = Some []) \<and>
   (\<forall>ms. list_models w = Inr ms \<longrightarrow> snd (list_available_models w) = Some ms) \<and>
   (snd (list_available_models w) = None) = (\<exists>e. list_models w = Inl e)"
  by (cases "list_models w") (simp_all add: snd_list_available_models)

theorem C8_empty_listing_is_not_an_error_witness:
  "snd (list_available_models (world_of (Some ''secret'') (Inr []))) = Some [] \<and>
   snd (list_available_models (world_of (Some ''secret'') (Inl (ProviderError ''no network''))))
     = None"
proof -
  let ?e = "world_of (Some ''secret'') (Inr [])"
  let ?f = "world_of (Some ''secret'') (Inl (ProviderError ''no network''))"
  have e: "list_models ?e = Inr []" by (simp add: world_of_def)
  have f: "list_models ?f = Inl (ProviderError ''no network'')" by (simp add: world_of_def)
  from C8_empty_listing_is_not_an_error [of ?e] e
  have "snd (list_available_models ?e) = Some []" by blast
  moreover from C8_empty_listing_is_not_an_error [of ?f] f
  have "snd (list_available_models ?f) = None" by blast
  ultimately show ?thesis by blast
qed

subsection \<open>Displaying the response\<close>

text \<open>
  Claim C9, as the claim states it, fails: on a response with zero candidates it need
  not be \<^verbatim>\<open>candidates[0]\<close> that makes \<^verbatim>\<open>display_response\<close> fail. Line 148 reads
  \<^verbatim>\<open>response.text\<close> first; for the response without candidates that read raises
  \<^verbatim>\<open>ValueError\<close>, which leaves the function after the three heading lines, and line 154
  is never reached.
\<close>

theorem C9_text_fails_before_the_index:
  "candidates empty_response = [] \<and>
   display_response empty_response =
     ([Print (Equals 70), Print Response_heading, Print (Equals 70)],
      Inl (ValueError ''response.candidates is empty'')) \<and>
   snd (display_response empty_response) \<noteq> Inl IndexError"
  by (simp add: empty_response_def display_response_def)

text \<open>
  Claim C9, amended. \<^verbatim>\<open>display_response\<close> needs a response whose text can be read and
  which has a candidate. When reading \<^verbatim>\<open>response.text\<close> raises, that exception leaves the
  function after the three heading lines, whatever the candidates are. When the text is
  read and there is a first candidate, the function prints the text, the number of
  candidates, and the finish reason and the number of safety ratings of that first
  candidate, and returns; no other candidate is read. When the text is read and there is
  no candidate, it prints the text, the metadata heading and the count 0, and then
  \<^verbatim>\<open>candidates[0]\<close> raises \<^verbatim>\<open>IndexError\<close>. So on a response with zero candidates the
  function always fails, and prints neither a finish reason nor a number of safety
  ratings.
\<close>

theorem C9_display_needs_text_and_a_candidate:
  "(\<forall>e. response_text r = Inl e \<longrightarrow>
      display_response r =
        ([Print (Equals 70), Print Response_heading, Print (Equals 70)], Inl e)) \<and>
   (\<forall>t c cs. response_text r = Inr t \<and> candidates r = c # cs \<longrightarrow>
      display_response r =
        ([Print (Equals 70), Print Response_heading, Print (Equals 70),
          Print (Response_text t), Print (Equals 70),
          Print Response_metadata_heading, Print (Number_of_candidates (Suc (length cs))),
          Print (Finish_reason (finish_reason c)),
          Print (Safety_ratings (length (safety_ratings c)))],
         Inr ())) \<and>
   (\<forall>t. response_text r = Inr t \<and> candidates r = [] \<longrightarrow>
      display_response r =
        ([Print (Equals 70), Print Response_heading, Print (Equals 70),
          Print (Response_text t), Print (Equals 70),
          Print Response_metadata_heading, Print (Number_of_candidates 0)],
         Inl IndexError)) \<and>
   (candidates r = [] \<longrightarrow>
      (\<exists>e. snd (display_response r) = Inl e) \<and>
      (\<forall>f. Print (Finish_reason f) \<notin> set (fst (display_response r))) \<and>
      (\<forall>n. Print (Safety_ratings n) \<notin> set (fst (display_response r))))"
proof -
  have raised: "display_response r =
        ([Print (Equals 70), Print Response_heading, Print (Equals 70)], Inl e)"
    if "response_text r = Inl e" for e
    using that by (simp add: display_response_def)
  have shown: "display_response r =
        ([Print (Equals 70), Print Response_heading, Print (Equals 70),
          Print (Response_text t), Print (Equals 70),
          Print Response_metadata_heading, Print (Number_of_candidates (Suc (length cs))),
          Print (Finish_reason (finish_reason c)),
          Print (Safety_ratings (length (safety_ratings c)))],
         Inr ())"
    if "response_text r = Inr t \<and> candidates r = c # cs" for t c cs
    using that by (simp add: display_response_def)
  have indexed: "display_response r =
        ([Print (Equals 70), Print Response_heading, Print (Equals 70),
          Print (Response_text t), Print (Equals 70),
          Print Response_metadata_heading, Print (Number_of_candidates 0)],
         Inl IndexError)"
    if "response_text r = Inr t \<and> candidates r = []" for t
    using that by (simp add: display_response_def)
  have none: "(\<exists>e. snd (display_response r) = Inl e) \<and>
      (\<forall>f. Print (Finish_reason f) \<notin> set (fst (display_response r))) \<and>
      (\<forall>n. Print (Safety_ratings n) \<notin> set (fst (display_response r)))"
    if empty: "candidates r = []"
  proof (cases "response_text r")
    case (Inl e)
    from raised [OF Inl] show ?thesis by simp
  next
    case (Inr t)
    with empty have "response_text r = Inr t \<and> candidates r = []" by simp
    from indexed [OF this] show ?thesis by simp
  qed
  from raised shown indexed none show ?thesis by blast
qed

theorem C9_display_needs_text_and_a_candidate_witness:
  "response_text sample_response = Inr ''An AI agent acts on goals.'' \<and>
   display_response sample_response =
     ([Print (Equals 70), Print Response_heading, Print (Equals 70),
       Print (Response_text ''An AI agent acts on goals.''), Print (Equals 70),
       Print Response_metadata_heading, Print (Number_of_candidates 1),
       Print (Finish_reason ''STOP''), Print (Safety_ratings 1)],
      Inr ()) \<and>
   length (candidates two_candidates_response) = 2 \<and>
   display_response two_candidates_response =
     ([Print (Equals 70), Print Response_heading, Print (Equals 70)],
      Inl (ValueError ''response contains multiple candidates'')) \<and>
   candidates bare_response = [] \<and>
   response_text bare_response = Inr [] \<and>
   display_response bare_response =
     ([Print (Equals 70), Print Response_heading, Print (Equals 70),
       Print (Response_text []), Print (Equals 70),
       Print Response_metadata_heading, Print (Number_of_candidates 0)],
      Inl IndexError)"
proof -
  have s: "response_text sample_response = Inr ''An AI agent acts on goals.''"
    "candidates sample_response =
      \<lparr>finish_reason = ''STOP'',
        safety_ratings = [(''HARM_CATEGORY_HARASSMENT'', ''NEGLIGIBLE'')]\<rparr> # []"
    by (simp_all add: sample_response_def)
  have t: "response_text two_candidates_response =
      Inl (ValueError ''response contains multiple candidates'')"
    "length (candidates two_candidates_response) = 2"
    by (simp_all add: two_candidates_response_def)
  have b: "response_text bare_response = Inr []" "candidates bare_response = []"
    by (simp_all add: bare_response_def)
  from C9_display_needs_text_and_a_candidate [of sample_response] s
  have shown: "display_response sample_response =
     ([Print (Equals 70), Print Response_heading, Print (Equals 70),
       Print (Response_text ''An AI agent acts on goals.''), Print (Equals 70),
       Print Response_metadata_heading, Print (Number_of_candidates 1),
       Print (Finish_reason ''STOP''), Print (Safety_ratings 1)],
      Inr ())"
    by simp
  from C9_display_needs_text_and_a_candidate [of two_candidates_response] t(1)
  have raised: "display_response two_candidates_response =
     ([Print (Equals 70), Print Response_heading, Print (Equals 70)],
      Inl (ValueError ''response contains multiple candidates''))"
    by blast
  from C9_display_needs_text_and_a_candidate [of bare_response] b
  have indexed: "display_response bare_response =
     ([Print (Equals 70), Print Response_heading, Print (Equals 70),
       Print (Response_text []), Print (Equals 70),
       Print Response_metadata_heading, Print (Number_of_candidates 0)],
      Inl IndexError)"
    by blast
  from s(1) shown t(2) raised b indexed show ?thesis by blast
qed

subsection \<open>What the selection depends on\<close>

text \<open>
  Claim C10. The model that \<^verbatim>\<open>setup_gemini\<close> builds is a function of the names and the sets
  of supported methods of the listed descriptors alone: two runs with a key, whose
  listings agree on the names and on the sets of supported methods position by position,
  build the same model, whatever the display names, the order of the methods and the
  keys are. With the same listing twice, this is the same result for two runs.
\<close>

theorem C10_selection_depends_on_names_and_methods:
  assumes "truthy (getenv_GOOGLE_API_KEY w)" and "truthy (getenv_GOOGLE_API_KEY w')"
    and "list_models w = Inr ms" and "list_models w' = Inr ms'"
    and "map name ms = map name ms'"
    and "map (\<lambda>m. set (supported_generation_methods m)) ms =
         map (\<lambda>m. set (supported_generation_methods m)) ms'"
  shows "snd (setup_gemini w) = snd (setup_gemini w')"
  using capable_names_cong [OF assms(5,6)]
  by (simp add: snd_setup_gemini [OF assms(1,3)] snd_setup_gemini [OF assms(2,4)]
        select_model_name_eq split: list.splits)

theorem C10_selection_depends_on_names_and_methods_witness:
  "map name plain_models = map name renamed_models \<and>
   map (\<lambda>m. set (supported_generation_methods m)) plain_models =
     map (\<lambda>m. set (supported_generation_methods m)) renamed_models \<and>
   plain_models \<noteq> renamed_models \<and>
   snd (setup_gemini (world_of (Some ''secret'') (Inr plain_models))) =
     snd (setup_gemini (world_of (Some ''other key'') (Inr renamed_models)))"
proof -
  let ?w = "world_of (Some ''secret'') (Inr plain_models)"
  let ?w' = "world_of (Some ''other key'') (Inr renamed_models)"
  have keys: "truthy (getenv_GOOGLE_API_KEY ?w)" "truthy (getenv_GOOGLE_API_KEY ?w')"
    by (simp_all add: world_of_def)
  have listings: "list_models ?w = Inr plain_models" "list_models ?w' = Inr renamed_models"
    by (simp_all add: world_of_def)
  have names: "map name plain_models = map name renamed_models"
    by (simp add: plain_models_def renamed_models_def)
  have methods: "map (\<lambda>m. set (supported_generation_methods m)) plain_models =
     map (\<lambda>m. set (supported_generation_methods m)) renamed_models"
    by (simp add: plain_models_def renamed_models_def insert_commute)
  have differ: "plain_models \<noteq> renamed_models"
    by (simp add: plain_models_def renamed_models_def)
  from C10_selection_depends_on_names_and_methods
    [OF keys(1) keys(2) listings(1) listings(2) names methods] names methods differ
  show ?thesis by blast
qed

end
